theory Spec2Isabelle
  imports Main "HOL-Library.Sublist"
begin

section \<open>Python strings\<close>

text \<open>
  A Python \<open>str\<close> is a sequence of code points; it is modelled as a \<open>string\<close>, one
  \<open>char\<close> per code point, so that \<open>length\<close> is Python's \<open>len\<close>.
  The functions below are the string primitives \<open>autofill_description.py\<close> uses:
  \<open>sub in s\<close>, \<open>s.find(sub)\<close>, \<open>s.find(sub, start)\<close>, \<open>s[a:b]\<close> and
  \<open>s.split(",")\<close>.
\<close>

text \<open>\<open>sub in s\<close>: some position of \<open>s\<close> starts a copy of \<open>sub\<close>.\<close>

fun py_in :: "string \<Rightarrow> string \<Rightarrow> bool" where
  "py_in sub [] = (sub = [])"
| "py_in sub (c # cs) = (prefix sub (c # cs) \<or> py_in sub cs)"

text \<open>
  The scan behind \<open>str.find\<close>: the lowest position, counted from \<open>i\<close> for the head of
  the remaining text, at which \<open>sub\<close> starts; \<open>-1\<close> when there is none.
\<close>

fun find_scan :: "string \<Rightarrow> string \<Rightarrow> nat \<Rightarrow> int" where
  "find_scan sub [] i = (if sub = [] then int i else - 1)"
| "find_scan sub (c # cs) i =
     (if prefix sub (c # cs) then int i else find_scan sub cs (Suc i))"

text \<open>
  \<open>s.find(sub, start)\<close>: a negative \<open>start\<close> counts from the end (and is clamped to
  0); a \<open>start\<close> beyond the end finds nothing, not even the empty string.
\<close>

definition py_find :: "string \<Rightarrow> string \<Rightarrow> int \<Rightarrow> int" where
  "py_find s sub start =
     (let n = int (length s);
          st = (if start < 0 then max 0 (start + n) else start)
      in if n < st then - 1 else find_scan sub (drop (nat st) s) (nat st))"

text \<open>
  \<open>s[a:b]\<close>: negative bounds count from the end, both bounds are clamped to the
  string, and an empty range gives the empty string.
\<close>

definition py_slice :: "string \<Rightarrow> int \<Rightarrow> int \<Rightarrow> string" where
  "py_slice s a b =
     (let n = int (length s);
          lo = (if a < 0 then max 0 (a + n) else min a n);
          hi = (if b < 0 then max 0 (b + n) else min b n)
      in drop (nat lo) (take (nat hi) s))"

text \<open>\<open>s.split(",")\<close>: the fields between commas; always at least one field.\<close>

fun split_comma :: "string \<Rightarrow> string list" where
  "split_comma [] = [[]]"
| "split_comma (c # cs) =
     (if c = CHR '','' then [] # split_comma cs
      else (case split_comma cs of
              [] \<Rightarrow> [[c]]
            | w # ws \<Rightarrow> (c # w) # ws))"

section \<open>Prompt truncation\<close>

text \<open>
  \<open>trim_prompt\<close> (lines 160 to 167): the budget is \<open>max_allowed_tokens *
  characters_per_token\<close>; a longer prompt is replaced by \<open>prompt[:budget]\<close>.
\<close>

definition max_allowed_tokens :: int where
  "max_allowed_tokens = 2048"

definition characters_per_token :: int where
  "characters_per_token = 4"

definition max_allowed_characters :: int where
  "max_allowed_characters = max_allowed_tokens * characters_per_token"

definition trim_prompt :: "string \<Rightarrow> string" where
  "trim_prompt prompt =
     (if int (length prompt) > max_allowed_characters
      then py_slice prompt 0 max_allowed_characters
      else prompt)"

text \<open>
  \<open>str(n)\<close> for an integer, as an f-string formats it: decimal digits, with a
  leading minus sign for a negative number.
\<close>

fun str_nat :: "nat \<Rightarrow> string" where
  "str_nat n =
     (if n < 10 then [''0123456789'' ! n]
      else str_nat (n div 10) @ [''0123456789'' ! (n mod 10)])"

declare str_nat.simps [simp del]

definition str_int :: "int \<Rightarrow> string" where
  "str_int i = (if i < 0 then CHR ''-'' # str_nat (nat (- i)) else str_nat (nat i))"

text \<open>\<open>"\n".join(xs)\<close>: the strings of \<open>xs\<close> with one newline between neighbours.\<close>

fun join_newline :: "string list \<Rightarrow> string" where
  "join_newline [] = []"
| "join_newline [x] = x"
| "join_newline (x # y # ys) = x @ ''\<newline>'' @ join_newline (y # ys)"

section \<open>Data of a run\<close>

text \<open>
  The exceptions a run can die of. \<open>APIError\<close> stands for whatever the
  \<open>openai\<close> client raises when the backend does not answer with a completion.
\<close>

datatype py_error = TypeError | KeyError | AttributeError | APIError

text \<open>
  The \<open>"body"\<close> entry of the pull request's JSON object: the key can be missing, the
  value can be \<open>null\<close> (Python's \<open>None\<close>, what the host sends for a pull request
  without a description), or it is a string.
\<close>

datatype json_string = Missing | Null | Str string

text \<open>
  The parsed JSON objects, with the entries the program reads: of a pull request
  \<open>["title"]\<close>, \<open>["body"]\<close> and \<open>["user"]["login"]\<close>; of a commit
  \<open>["commit"]["message"]\<close>; of a file entry \<open>["filename"]\<close> and \<open>["patch"]\<close>, the
  latter not present in every entry; of a comment \<open>["body"]\<close>.
\<close>

record pull_request_data =
  title :: string
  body :: json_string
  login :: string

record commit_object =
  message :: string

record pull_request_file =
  filename :: string
  patch :: "string option"

record comment =
  comment_body :: string

text \<open>
  Several functions return either their result or the integer \<open>1\<close> (after a failed
  request); the caller gets one Python value that is the one or the other.
\<close>

datatype 'a or_int = IntVal int | Val 'a

text \<open>An HTTP response: the status code and the parsed JSON of its text.\<close>

type_synonym 'a response = "nat \<times> 'a"

definition codes_ok :: nat where
  "codes_ok = 200"

definition codes_created :: nat where
  "codes_created = 201"

text \<open>
  Everything outside the process, as one run sees it: what the host answers to each
  request (the file list by page number and page size, the new comment by its body) and
  what the generation backend does with a prompt (raise, or return the first choice's
  content).
\<close>

record world =
  pull_request_result :: "pull_request_data response"
  comments_result :: "comment list response"
  pull_commit_result :: "commit_object list response"
  pull_files_result :: "nat \<Rightarrow> nat \<Rightarrow> pull_request_file list response"
  add_comment_result :: "string \<Rightarrow> string response"
  chat_completion :: "string \<Rightarrow> py_error + string"

text \<open>
  What a run does to the outside, in order: the requests it sends to the host, the calls
  of the generation backend (with the prompt), and the lines it prints.
\<close>

datatype request =
    GetPullRequest
  | GetComments
  | GetCommits
  | GetFiles nat nat
  | PostComment string

datatype output_line =
    PullRequestDataFailed nat
  | AuthorNotAllowed string
  | CommentsFailed nat
  | CommentsData "comment list"
  | AlreadyAutogenerated
  | CommitsFailed nat
  | FilesFailed nat
  | GeneratedDescription string
  | AddCommentFailed nat
  | AddCommentResponse string

datatype event = Request request | ChatCompletion string | Print output_line

text \<open>
  A step of the run: the events it causes, and the exception it raises or the value it
  returns. \<open>bind\<close> is Python's sequencing: an exception ends the run, keeping the
  events so far.
\<close>

type_synonym 'a action = "event list \<times> (py_error + 'a)"

definition ret :: "'a \<Rightarrow> 'a action" where
  "ret x = ([], Inr x)"

definition raise :: "py_error \<Rightarrow> 'a action" where
  "raise e = ([], Inl e)"

definition bind :: "'a action \<Rightarrow> ('a \<Rightarrow> 'b action) \<Rightarrow> 'b action" where
  "bind m f =
     (case m of
        (evs, Inl e) \<Rightarrow> (evs, Inl e)
      | (evs, Inr x) \<Rightarrow> (case f x of (evs', r) \<Rightarrow> (evs @ evs', r)))"

section \<open>The functions of the program\<close>

text \<open>
  \<open>get_pull_request_data\<close> (lines 50 to 62): \<open>None\<close> after a failed request.
\<close>

definition get_pull_request_data :: "world \<Rightarrow> pull_request_data option action" where
  "get_pull_request_data w =
     (case pull_request_result w of
        (status_code, data) \<Rightarrow>
          if status_code \<noteq> codes_ok
          then ([Request GetPullRequest, Print (PullRequestDataFailed status_code)], Inr None)
          else ([Request GetPullRequest], Inr (Some data)))"

text \<open>
  \<open>get_current_pr_description\<close> (lines 65 to 76). \<open>pull_request_data["body"]\<close>
  raises \<open>KeyError\<close> without the key, and \<open>None.find\<close> raises \<open>AttributeError\<close>.
\<close>

definition get_current_pr_description :: "pull_request_data \<Rightarrow> py_error + string" where
  "get_current_pr_description data =
     (case body data of
        Missing \<Rightarrow> Inl KeyError
      | Null \<Rightarrow> Inl AttributeError
      | Str entire_description \<Rightarrow>
          (let description_start_index = py_find entire_description ''# Description'' 0
           in if description_start_index = - 1 then Inr entire_description
              else
                (let description_end_index =
                       py_find entire_description ''#'' (description_start_index + 1)
                 in if description_end_index = - 1 then Inr entire_description
                    else Inr (py_slice entire_description
                                description_start_index description_end_index))))"

text \<open>
  \<open>check_pull_request_author_is_allowed_to_trigger_action\<close> (lines 79 to 88):
  returns \<open>0\<close> for an author outside a non-empty list and \<open>None\<close> otherwise.
  \<open>allowed_users\<close> is the empty string or a list of names; the empty list stands
  for the empty string (both are false in \<open>if allowed_users\<close>). With a non-empty list,
  subscripting the \<open>None\<close> of a failed request raises \<open>TypeError\<close>.
\<close>

definition check_pull_request_author_is_allowed_to_trigger_action ::
    "pull_request_data option \<Rightarrow> string list \<Rightarrow> int option action" where
  "check_pull_request_author_is_allowed_to_trigger_action data allowed_users =
     (if allowed_users \<noteq> []
      then (case data of
              None \<Rightarrow> raise TypeError
            | Some d \<Rightarrow>
                (let pr_author = login d
                 in if pr_author \<notin> set allowed_users
                    then ([Print (AuthorNotAllowed pr_author)], Inr (Some 0))
                    else ret None))
      else ret None)"

text \<open>
  \<open>get_commit_messages\<close> (lines 91 to 107): the messages joined by newlines, or \<open>1\<close>.
\<close>

definition get_commit_messages :: "world \<Rightarrow> string or_int action" where
  "get_commit_messages w =
     (case pull_commit_result w of
        (status_code, pull_commit_data) \<Rightarrow>
          if status_code \<noteq> codes_ok
          then ([Request GetCommits, Print (CommitsFailed status_code)], Inr (IntVal 1))
          else ([Request GetCommits], Inr (Val (join_newline (map message pull_commit_data)))))"

text \<open>
  \<open>get_pull_request_files\<close> (lines 110 to 134): the loop over \<open>range(1, 11)\<close>, with
  the files collected so far; a failed request returns \<open>1\<close>, an empty page leaves the
  loop.
\<close>

fun files_loop ::
    "world \<Rightarrow> nat list \<Rightarrow> pull_request_file list \<Rightarrow> pull_request_file list or_int action" where
  "files_loop w [] pull_request_files = ret (Val pull_request_files)"
| "files_loop w (page_num # pages) pull_request_files =
     (case pull_files_result w page_num 30 of
        (status_code, pull_files_chunk) \<Rightarrow>
          if status_code \<noteq> codes_ok
          then ([Request (GetFiles page_num 30), Print (FilesFailed status_code)],
                Inr (IntVal 1))
          else if length pull_files_chunk = 0
          then ([Request (GetFiles page_num 30)], Inr (Val pull_request_files))
          else bind ([Request (GetFiles page_num 30)], Inr ())
                 (\<lambda>_. files_loop w pages (pull_request_files @ pull_files_chunk)))"

definition get_pull_request_files :: "world \<Rightarrow> pull_request_file list or_int action" where
  "get_pull_request_files w = files_loop w [1..<11] []"

text \<open>
  \<open>construct_prompt\<close> (lines 137 to 157): the f-string of lines 140 to 146, then the
  loop over the file entries, which skips an entry without a \<open>"patch"\<close> key.
\<close>

definition prompt_head :: "string \<Rightarrow> string \<Rightarrow> string \<Rightarrow> string" where
  "prompt_head pull_request_title current_description commit_messages =
     ''\<newline>Please rewrite the current pull request description focusing on the motivation behind the changes contained in the pull request and why they improve the project. Go straight to the point.\<newline>''
     @ ''The title of the pull request is: '' @ pull_request_title @ '' \<newline>\<newline>''
     @ ''The current description is: \<newline> '' @ current_description @ '' \<newline>\<newline>''
     @ ''This pull request contains the following commits (use them to create a better description): \<newline> ''
     @ commit_messages @ ''\<newline>\<newline>''
     @ ''And the following changes took place: \<newline>\<newline>''"

fun changes_loop :: "string \<Rightarrow> pull_request_file list \<Rightarrow> string" where
  "changes_loop prompt [] = prompt"
| "changes_loop prompt (pull_request_file # files) =
     (case patch pull_request_file of
        None \<Rightarrow> changes_loop prompt files
      | Some p \<Rightarrow>
          changes_loop
            (prompt @ ''Changes in file '' @ filename pull_request_file @ '': \<newline>''
               @ p @ ''\<newline>'')
            files)"

definition construct_prompt ::
    "string \<Rightarrow> string \<Rightarrow> string \<Rightarrow> pull_request_file list \<Rightarrow> string" where
  "construct_prompt pull_request_title current_description commit_messages pull_request_files =
     changes_loop (prompt_head pull_request_title current_description commit_messages)
       pull_request_files"

text \<open>
  \<open>send_prompt_to_openai\<close> (lines 170 to 195): one call of the backend.
\<close>

definition send_prompt_to_openai :: "world \<Rightarrow> string \<Rightarrow> string action" where
  "send_prompt_to_openai w prompt = ([ChatCompletion prompt], chat_completion w prompt)"

text \<open>\<open>add_title_to_description\<close> (lines 198 to 199).\<close>

definition add_title_to_description :: "string \<Rightarrow> string \<Rightarrow> string" where
  "add_title_to_description autogenerated_title description =
     autogenerated_title @ ''\<newline>\<newline>'' @ description"

text \<open>
  \<open>write_description_as_comment\<close> (lines 202 to 221): \<open>1\<close> when the host does not
  answer \<open>201\<close>, \<open>None\<close> otherwise.
\<close>

definition write_description_as_comment :: "world \<Rightarrow> string \<Rightarrow> int option action" where
  "write_description_as_comment w generated_pr_description =
     (case add_comment_result w generated_pr_description of
        (status_code, response_text) \<Rightarrow>
          if status_code \<noteq> codes_created
          then ([Request (PostComment generated_pr_description),
                 Print (AddCommentFailed status_code),
                 Print (AddCommentResponse response_text)],
                Inr (Some 1))
          else ([Request (PostComment generated_pr_description)], Inr None))"

text \<open>
  \<open>check_if_description_has_already_been_autogenerated\<close> (lines 224 to 243): \<open>1\<close>
  after a failed request and \<open>1\<close> at the first comment whose body contains the title;
  \<open>None\<close> when the loop ends.
\<close>

fun comments_loop :: "string \<Rightarrow> comment list \<Rightarrow> int option action" where
  "comments_loop autogenerated_title [] = ret None"
| "comments_loop autogenerated_title (c # comments) =
     (if py_in autogenerated_title (comment_body c)
      then ([Print AlreadyAutogenerated], Inr (Some 1))
      else comments_loop autogenerated_title comments)"

definition check_if_description_has_already_been_autogenerated ::
    "world \<Rightarrow> string \<Rightarrow> int option action" where
  "check_if_description_has_already_been_autogenerated w autogenerated_title =
     (case comments_result w of
        (status_code, comments_data) \<Rightarrow>
          if status_code \<noteq> codes_ok
          then ([Request GetComments, Print (CommentsFailed status_code)], Inr (Some 1))
          else bind ([Request GetComments, Print (CommentsData comments_data)], Inr ())
                 (\<lambda>_. comments_loop autogenerated_title comments_data))"

text \<open>Python's truth value of what the two checks return (\<open>None\<close>, \<open>0\<close> or \<open>1\<close>).\<close>

definition truthy :: "int option \<Rightarrow> bool" where
  "truthy v = (case v of None \<Rightarrow> False | Some n \<Rightarrow> n \<noteq> 0)"

text \<open>
  The values \<open>main\<close> passes on without looking at them: subscripting
  \<open>pull_request_data\<close> (line 309) raises \<open>TypeError\<close> on \<open>None\<close>; the commit
  messages go through the f-string, which formats the integer \<open>1\<close> as well as a
  string; the loop of \<open>construct_prompt\<close> raises \<open>TypeError\<close> on an integer.
\<close>

definition subscript :: "pull_request_data option \<Rightarrow> pull_request_data action" where
  "subscript data = (case data of None \<Rightarrow> raise TypeError | Some d \<Rightarrow> ret d)"

definition formatted :: "string or_int \<Rightarrow> string" where
  "formatted v = (case v of IntVal n \<Rightarrow> str_int n | Val s \<Rightarrow> s)"

definition iterable :: "'a list or_int \<Rightarrow> 'a list action" where
  "iterable v = (case v of IntVal n \<Rightarrow> raise TypeError | Val xs \<Rightarrow> ret xs)"

text \<open>
  \<open>main\<close> (lines 283 to 332), from the parsed arguments on: \<open>allowed_users_env\<close> is
  the value of \<open>INPUT_ALLOWED_USERS\<close> (the empty string when unset). No result of a
  called function is inspected, and \<open>main\<close> returns \<open>None\<close>.
\<close>

definition autogenerated_title :: string where
  "autogenerated_title = ''# Auto-generated description:''"

definition main :: "string \<Rightarrow> world \<Rightarrow> unit action" where
  "main allowed_users_env w =
     (let allowed_users =
            (if allowed_users_env \<noteq> [] then split_comma allowed_users_env else [])
      in
      bind (get_pull_request_data w) (\<lambda>data.
      bind (check_pull_request_author_is_allowed_to_trigger_action data allowed_users) (\<lambda>_.
      bind (check_if_description_has_already_been_autogenerated w autogenerated_title) (\<lambda>_.
      bind (subscript data) (\<lambda>d.
      bind ([], get_current_pr_description d) (\<lambda>current_description.
      bind (get_commit_messages w) (\<lambda>commit_messages.
      bind (get_pull_request_files w) (\<lambda>pull_request_files.
      bind (iterable pull_request_files) (\<lambda>files.
      bind (send_prompt_to_openai w
              (trim_prompt
                 (construct_prompt (title d) current_description
                    (formatted commit_messages) files))) (\<lambda>generated.
      bind ([Print (GeneratedDescription
                      (add_title_to_description autogenerated_title generated))],
            Inr ()) (\<lambda>_.
      bind (write_description_as_comment w
              (add_title_to_description autogenerated_title generated)) (\<lambda>_.
      ret ()))))))))))))"

text \<open>
  \<open>sys.exit(main())\<close> (line 336): \<open>None\<close> exits with status 0, an exception that
  nothing catches ends the process with status 1.
\<close>

definition exit_status :: "unit action \<Rightarrow> nat" where
  "exit_status run = (case snd run of Inl e \<Rightarrow> 1 | Inr u \<Rightarrow> 0)"

text \<open>The calls of the generation backend and the comments posted, in a trace.\<close>

definition generation_calls :: "event list \<Rightarrow> string list" where
  "generation_calls evs = concat (map (\<lambda>e. case e of ChatCompletion p \<Rightarrow> [p] | _ \<Rightarrow> []) evs)"

definition publish_calls :: "event list \<Rightarrow> string list" where
  "publish_calls evs =
     concat (map (\<lambda>e. case e of Request (PostComment b) \<Rightarrow> [b] | _ \<Rightarrow> []) evs)"

definition requests :: "event list \<Rightarrow> request list" where
  "requests evs = concat (map (\<lambda>e. case e of Request r \<Rightarrow> [r] | _ \<Rightarrow> []) evs)"

section \<open>Example runs\<close>

text \<open>
  The run of the specification's end-to-end test: title \<open>Enable X\<close>, an empty body,
  one commit \<open>add X\<close>, one file \<open>a.yml\<close> with the patch \<open>+line\<close>, no comment yet;
  every request succeeds and the backend returns a text. The author is \<open>mallory\<close>.
\<close>

definition example_world :: world where
  "example_world =
     \<lparr>pull_request_result =
        (200, \<lparr>title = ''Enable X'', body = Str [], login = ''mallory''\<rparr>),
      comments_result = (200, []),
      pull_commit_result = (200, [\<lparr>message = ''add X''\<rparr>]),
      pull_files_result =
        (\<lambda>page_num per_page.
           (200, if page_num = 1 then [\<lparr>filename = ''a.yml'', patch = Some ''+line''\<rparr>]
                 else [])),
      add_comment_result = (\<lambda>b. (201, [])),
      chat_completion = (\<lambda>prompt. Inr ''Generated text'')\<rparr>"

text \<open>The same pull request with a comment of an earlier run on it.\<close>

definition commented_world :: world where
  "commented_world =
     example_world
       \<lparr>comments_result :=
          (200, [\<lparr>comment_body =
                     ''# Auto-generated description:\<newline>\<newline>Earlier text''\<rparr>])\<rparr>"

text \<open>The same pull request on a host that refuses the new comment with status 500.\<close>

definition post_fails_world :: world where
  "post_fails_world =
     example_world\<lparr>add_comment_result := (\<lambda>b. (500, ''Internal Server Error''))\<rparr>"

text \<open>The same pull request on a host that answers the commit list with status 500.\<close>

definition commits_fail_world :: world where
  "commits_fail_world = example_world\<lparr>pull_commit_result := (500, [])\<rparr>"

text \<open>
  A pull request whose file list has \<open>n\<close> full pages of 30 entries (none with a
  patch) and empty pages after them.
\<close>

definition paged_world :: "nat \<Rightarrow> world" where
  "paged_world n =
     example_world
       \<lparr>pull_files_result :=
          (\<lambda>page_num per_page.
             (200, if page_num \<le> n
                   then replicate 30 \<lparr>filename = ''f'', patch = None\<rparr>
                   else []))\<rparr>"

section \<open>Facts about the string primitives\<close>

lemma py_in_sublist: "py_in sub s = sublist sub s"
  by (induction s) (simp_all add: sublist_Cons_right)

lemma py_slice_from_0: "0 \<le> b \<Longrightarrow> py_slice s 0 b = take (nat b) s"
  by (simp add: py_slice_def Let_def min_def)

lemma py_slice_middle:
  assumes "s = pre @ x @ y" and "a = int (length pre)" and "b = int (length pre + length x)"
  shows "py_slice s a b = x"
  using assms by (simp add: py_slice_def Let_def min_def)

lemma find_scan_absent: "\<not> sublist sub s \<Longrightarrow> find_scan sub s i = - 1"
  by (induction s arbitrary: i) (auto simp add: sublist_Cons_right)

lemma find_scan_first:
  "\<forall>j<length pre. \<not> prefix sub (drop j (pre @ sub @ rest))
   \<Longrightarrow> find_scan sub (pre @ sub @ rest) i = int (i + length pre)"
proof (induction pre arbitrary: i)
  case Nil
  have "prefix sub (sub @ rest)"
    by simp
  then show ?case
    by (cases "sub @ rest") simp_all
next
  case (Cons c pre)
  from Cons.prems have head: "\<not> prefix sub (c # pre @ sub @ rest)"
    by force
  from Cons.prems have "\<forall>j<length pre. \<not> prefix sub (drop j (pre @ sub @ rest))"
    by force
  then have "find_scan sub (pre @ sub @ rest) (Suc i) = int (Suc i + length pre)"
    by (rule Cons.IH)
  with head show ?case
    by simp
qed

lemma find_scan_char:
  "c \<notin> set pre \<Longrightarrow> find_scan [c] (pre @ c # rest) i = int (i + length pre)"
  by (induction pre arbitrary: i) auto

lemma find_scan_char_absent: "c \<notin> set s \<Longrightarrow> find_scan [c] s i = - 1"
  by (induction s arbitrary: i) auto

lemma py_find_absent: "\<not> sublist sub s \<Longrightarrow> py_find s sub 0 = - 1"
  by (simp add: py_find_def find_scan_absent)

lemma py_find_first:
  "\<forall>j<length pre. \<not> prefix sub (drop j (pre @ sub @ rest))
   \<Longrightarrow> py_find (pre @ sub @ rest) sub 0 = int (length pre)"
  using find_scan_first [of pre sub rest 0] by (simp add: py_find_def)

lemma py_find_char_after:
  assumes "c \<notin> set mid" and "s = pre @ mid @ c # rest" and "st = int (length pre)"
  shows "py_find s [c] st = int (length pre + length mid)"
  using assms find_scan_char [of c mid rest "length pre"] by (simp add: py_find_def)

lemma py_find_char_after_absent:
  assumes "c \<notin> set rest" and "s = pre @ rest" and "st = int (length pre)"
  shows "py_find s [c] st = - 1"
  using assms by (simp add: py_find_def find_scan_char_absent)

section \<open>Truncation keeps a prefix within the budget\<close>

text \<open>
  C6. For a prompt of length \<open>L\<close>, \<open>trim_prompt\<close> returns a string of length
  \<open>min L 8192\<close> that is a prefix of the prompt, where \<open>8192 = 2048 * 4\<close> is the
  character budget: it is the first 8192 characters when \<open>L > 8192\<close> and the prompt
  itself otherwise, so what remains is never reordered.
\<close>

theorem trim_prompt_length_prefix:
  "length (trim_prompt p) = min (length p) 8192
   \<and> prefix (trim_prompt p) p
   \<and> trim_prompt p = (if 8192 < length p then take 8192 p else p)
   \<and> max_allowed_characters = 8192
   \<and> max_allowed_characters = 2048 * 4"
proof -
  have budget: "max_allowed_characters = 8192"
    by (simp add: max_allowed_characters_def max_allowed_tokens_def characters_per_token_def)
  have eq: "trim_prompt p = (if 8192 < length p then take 8192 p else p)"
    by (simp add: trim_prompt_def budget py_slice_from_0)
  have "prefix (take 8192 p) p"
    by (rule take_is_prefix)
  with eq budget show ?thesis
    by (simp add: min_def)
qed

section \<open>The current description\<close>

lemma description_of_str:
  assumes "body d = Str s"
  shows "get_current_pr_description d =
         (if py_find s ''# Description'' 0 = - 1 then Inr s
          else if py_find s ''#'' (py_find s ''# Description'' 0 + 1) = - 1 then Inr s
          else Inr (py_slice s (py_find s ''# Description'' 0)
                      (py_find s ''#'' (py_find s ''# Description'' 0 + 1))))"
  using assms by (simp add: get_current_pr_description_def Let_def)

lemma description_absent:
  assumes "body d = Str s" and "\<not> sublist ''# Description'' s"
  shows "get_current_pr_description d = Inr s"
  using assms by (simp add: description_of_str py_find_absent)

lemma description_closed:
  assumes d: "body d = Str (pre @ ''# Description'' @ mid @ CHR ''#'' # post)"
    and first: "\<forall>j<length pre. \<not> prefix ''# Description''
                  (drop j (pre @ ''# Description'' @ mid @ CHR ''#'' # post))"
    and mid: "CHR ''#'' \<notin> set mid"
  shows "get_current_pr_description d = Inr (''# Description'' @ mid)"
proof -
  define s where "s = pre @ ''# Description'' @ mid @ CHR ''#'' # post"
  define e where "e = int (length (pre @ ''#'') + length ('' Description'' @ mid))"
  have start: "py_find s ''# Description'' 0 = int (length pre)"
    unfolding s_def using first by (rule py_find_first)
  have "CHR ''#'' \<notin> set ('' Description'' @ mid)"
    using mid by simp
  then have "py_find s ''#'' (int (length pre) + 1)
             = int (length (pre @ ''#'') + length ('' Description'' @ mid))"
    by (rule py_find_char_after) (simp_all add: s_def)
  then have stop: "py_find s ''#'' (int (length pre) + 1) = e"
    by (simp only: e_def)
  have slice: "py_slice s (int (length pre)) e = ''# Description'' @ mid"
    by (rule py_slice_middle [where pre = pre and y = "CHR ''#'' # post"])
       (simp_all add: s_def e_def)
  have positive: "e \<noteq> - 1"
    by (simp add: e_def)
  have "body d = Str s"
    using d by (simp only: s_def)
  then have "get_current_pr_description d = Inr (py_slice s (int (length pre)) e)"
    by (simp add: description_of_str start stop positive)
  then show ?thesis
    by (simp only: slice)
qed

lemma description_open:
  assumes d: "body d = Str (pre @ ''# Description'' @ rest)"
    and first: "\<forall>j<length pre. \<not> prefix ''# Description''
                  (drop j (pre @ ''# Description'' @ rest))"
    and rest: "CHR ''#'' \<notin> set rest"
  shows "get_current_pr_description d = Inr (pre @ ''# Description'' @ rest)"
proof -
  define s where "s = pre @ ''# Description'' @ rest"
  have start: "py_find s ''# Description'' 0 = int (length pre)"
    unfolding s_def using first by (rule py_find_first)
  have "CHR ''#'' \<notin> set ('' Description'' @ rest)"
    using rest by simp
  then have stop: "py_find s ''#'' (int (length pre) + 1) = - 1"
    by (rule py_find_char_after_absent [where pre = "pre @ ''#''"]) (simp_all add: s_def)
  have "body d = Str s"
    using d by (simp only: s_def)
  then have "get_current_pr_description d = Inr s"
    by (simp add: description_of_str start stop)
  then show ?thesis
    by (simp only: s_def)
qed

text \<open>
  The three paths of \<open>get_current_pr_description\<close> on a body that is a string.
  Without the marker \<open># Description\<close> line 70 returns the whole body. When the marker
  first starts after \<open>pre\<close> and a \<open>#\<close> follows strictly after the marker's start,
  line 76 returns the text from the marker up to, and without, the first such \<open>#\<close>.
  When the marker is there and no \<open>#\<close> follows it, line 74 returns the whole body,
  the text before the marker included.
\<close>

theorem current_description_section:
  "(body d = Str s \<and> \<not> sublist ''# Description'' s
      \<longrightarrow> get_current_pr_description d = Inr s)
   \<and> (body d = Str (pre @ ''# Description'' @ mid @ ''#'' @ post)
        \<and> (\<forall>j<length pre. \<not> prefix ''# Description''
               (drop j (pre @ ''# Description'' @ mid @ ''#'' @ post)))
        \<and> CHR ''#'' \<notin> set mid
      \<longrightarrow> get_current_pr_description d = Inr (''# Description'' @ mid))
   \<and> (body d = Str (pre @ ''# Description'' @ rest)
        \<and> (\<forall>j<length pre. \<not> prefix ''# Description''
               (drop j (pre @ ''# Description'' @ rest)))
        \<and> CHR ''#'' \<notin> set rest
      \<longrightarrow> get_current_pr_description d = Inr (pre @ ''# Description'' @ rest))"
  using description_absent [of d s] description_closed [of d pre mid post]
    description_open [of d pre rest]
  by simp

theorem current_description_section_witness:
  "get_current_pr_description \<lparr>title = ''t'', body = Str ''only an intro'', login = ''a''\<rparr>
     = Inr ''only an intro''
   \<and> get_current_pr_description
       \<lparr>title = ''t'', body = Str ''intro # Description body text # Footer'', login = ''a''\<rparr>
     = Inr ''# Description body text ''
   \<and> get_current_pr_description
       \<lparr>title = ''t'', body = Str ''intro # Description body text'', login = ''a''\<rparr>
     = Inr ''intro # Description body text''"
proof -
  have absent: "\<not> sublist ''# Description'' ''only an intro''"
    by (simp add: py_in_sublist [symmetric])
  have first: "\<forall>j<length ''intro ''. \<not> prefix ''# Description'' (drop j (''intro '' @ ''# Description'' @ r))" for r
    by (simp add: All_less_Suc2)
  show ?thesis
    using current_description_section
            [of "\<lparr>title = ''t'', body = Str ''only an intro'', login = ''a''\<rparr>" "''only an intro''"]
          current_description_section
            [of "\<lparr>title = ''t'', body = Str ''intro # Description body text # Footer'', login = ''a''\<rparr>"
                _ "''intro ''" "'' body text ''" "'' Footer''"]
          current_description_section
            [of "\<lparr>title = ''t'', body = Str ''intro # Description body text'', login = ''a''\<rparr>"
                _ "''intro ''" _ _ "'' body text''"]
          absent first
    by simp
qed

text \<open>
  C4 (the code differs). The claim: with the marker \<open># Description\<close> in the body,
  the result starts at the marker and ends before the next \<open>#\<close>, or at the end of
  the string when no \<open>#\<close> follows; without the marker it is the whole body. The
  comment of line 67 says the same (select only what is within the section), and the
  path with a closing \<open>#\<close> does it: \<open>intro # Description body text # Footer\<close> gives
  \<open># Description body text \<close>. Without a closing \<open>#\<close> line 74 returns
  \<open>entire_description\<close>: \<open>intro # Description body text\<close> comes back whole, with
  \<open>intro \<close> from outside the section, where the claim gives
  \<open># Description body text\<close>.
\<close>

theorem description_without_closing_marker:
  "get_current_pr_description
     \<lparr>title = ''t'', body = Str ''intro # Description body text'', login = ''a''\<rparr>
   = Inr ''intro # Description body text''
   \<and> get_current_pr_description
       \<lparr>title = ''t'', body = Str ''intro # Description body text'', login = ''a''\<rparr>
     \<noteq> Inr ''# Description body text''
   \<and> get_current_pr_description
       \<lparr>title = ''t'', body = Str ''intro # Description body text # Footer'', login = ''a''\<rparr>
     = Inr ''# Description body text ''"
  by code_simp

section \<open>The file blocks of the prompt\<close>

lemma changes_loop_blocks:
  "changes_loop prompt fs =
   prompt @ concat (map (\<lambda>f. case patch f of
                                 None \<Rightarrow> []
                               | Some p \<Rightarrow> ''Changes in file '' @ filename f
                                            @ '': \<newline>'' @ p @ ''\<newline>'') fs)"
  by (induction fs arbitrary: prompt) (simp_all split: option.split)

text \<open>
  C7. The prompt is the head (preamble, title, description, commits) followed by the
  blocks of the file entries in their order: an entry with a patch gives the one block
  \<open>Changes in file {filename}: \n{patch}\n\<close>, an entry without a patch gives nothing.
\<close>

theorem construct_prompt_blocks:
  "construct_prompt t d c fs =
   prompt_head t d c
   @ concat (map (\<lambda>f. case patch f of
                         None \<Rightarrow> []
                       | Some p \<Rightarrow> ''Changes in file '' @ filename f
                                    @ '': \<newline>'' @ p @ ''\<newline>'') fs)"
  by (simp only: construct_prompt_def changes_loop_blocks)

section \<open>The check of the comments\<close>

lemma comments_loop_result:
  "\<exists>v. snd (comments_loop t cs) = Inr v
       \<and> (truthy v \<longleftrightarrow> (\<exists>c\<in>set cs. sublist t (comment_body c)))"
  by (induction cs) (simp_all add: ret_def truthy_def py_in_sublist)

lemma snd_bind_unit: "snd (bind (evs, Inr ()) f) = snd (f ())"
  by (simp add: bind_def split: prod.split)

text \<open>
  C8. The loop over the comments returns a true value exactly when some comment body
  contains the title as a substring, and \<open>None\<close> (false) for no comments; so does
  \<open>check_if_description_has_already_been_autogenerated\<close> on the comments of a
  successful request.
\<close>

theorem already_generated_iff:
  "(\<exists>v. snd (comments_loop t cs) = Inr v
        \<and> (truthy v \<longleftrightarrow> (\<exists>c\<in>set cs. sublist t (comment_body c))))
   \<and> snd (comments_loop t []) = Inr None \<and> \<not> truthy None
   \<and> (fst (comments_result w) = codes_ok \<longrightarrow>
        (\<exists>v. snd (check_if_description_has_already_been_autogenerated w t) = Inr v
          \<and> (truthy v \<longleftrightarrow>
               (\<exists>c\<in>set (snd (comments_result w)). sublist t (comment_body c)))))"
proof -
  have "snd (check_if_description_has_already_been_autogenerated w t)
        = snd (comments_loop t (snd (comments_result w)))"
    if "fst (comments_result w) = codes_ok"
    using that
    by (cases "comments_result w")
       (simp add: check_if_description_has_already_been_autogenerated_def snd_bind_unit)
  then show ?thesis
    using comments_loop_result [of t cs] comments_loop_result [of t "snd (comments_result w)"]
    by (simp add: ret_def truthy_def)
qed

theorem already_generated_iff_witness:
  "fst (comments_result commented_world) = codes_ok
   \<and> snd (check_if_description_has_already_been_autogenerated commented_world
            autogenerated_title) = Inr (Some 1)
   \<and> truthy (Some 1)
   \<and> (\<exists>c\<in>set (snd (comments_result commented_world)).
         sublist autogenerated_title (comment_body c))
   \<and> snd (check_if_description_has_already_been_autogenerated example_world
            autogenerated_title) = Inr None"
proof -
  have ok: "fst (comments_result commented_world) = codes_ok"
    by (simp add: commented_world_def codes_ok_def)
  have found: "snd (check_if_description_has_already_been_autogenerated commented_world
                 autogenerated_title) = Inr (Some 1)"
    by code_simp
  have none: "snd (check_if_description_has_already_been_autogenerated example_world
                 autogenerated_title) = Inr None"
    by code_simp
  have yes: "truthy (Some 1)"
    by (simp add: truthy_def)
  from already_generated_iff [of autogenerated_title "[]" commented_world] ok found yes
  have "\<exists>c\<in>set (snd (comments_result commented_world)).
          sublist autogenerated_title (comment_body c)"
    by simp
  with ok found none yes show ?thesis
    by simp
qed

section \<open>A body that is not a string\<close>

text \<open>
  C10. \<open>get_current_pr_description\<close> raises when the body of the pull request is
  \<open>null\<close> (\<open>AttributeError\<close>) or missing (\<open>KeyError\<close>); for a body that is a string
  it returns a string.
\<close>

theorem description_needs_string_body:
  "(body d = Null \<longrightarrow> get_current_pr_description d = Inl AttributeError)
   \<and> (body d = Missing \<longrightarrow> get_current_pr_description d = Inl KeyError)
   \<and> (\<forall>s. body d = Str s \<longrightarrow> (\<exists>r. get_current_pr_description d = Inr r))"
  by (simp add: get_current_pr_description_def Let_def)

theorem description_needs_string_body_witness:
  "get_current_pr_description \<lparr>title = ''Enable X'', body = Null, login = ''mallory''\<rparr>
     = Inl AttributeError
   \<and> get_current_pr_description \<lparr>title = ''Enable X'', body = Missing, login = ''mallory''\<rparr>
     = Inl KeyError
   \<and> (\<exists>r. get_current_pr_description
             \<lparr>title = ''Enable X'', body = Str ''# Description x'', login = ''mallory''\<rparr>
           = Inr r)"
  using description_needs_string_body
          [of "\<lparr>title = ''Enable X'', body = Null, login = ''mallory''\<rparr>"]
        description_needs_string_body
          [of "\<lparr>title = ''Enable X'', body = Missing, login = ''mallory''\<rparr>"]
        description_needs_string_body
          [of "\<lparr>title = ''Enable X'', body = Str ''# Description x'', login = ''mallory''\<rparr>"]
  by simp

section \<open>The pages of the file list\<close>

lemma range_1_11: "[1..<11] = [1, 2, 3, 4, 5, 6, 7, 8, 9, 10]"
  by (simp add: upt_rec)

lemma range_Suc_0_11: "[Suc 0..<11] = [Suc 0, 2, 3, 4, 5, 6, 7, 8, 9, 10]"
  using range_1_11 by simp

lemma fst_bind:
  "fst (bind m f) = fst m @ (case snd m of Inl e \<Rightarrow> [] | Inr x \<Rightarrow> fst (f x))"
  by (simp add: bind_def split: prod.split sum.split)

lemma requests_Cons:
  "requests (e # evs) = (case e of Request r \<Rightarrow> [r] | _ \<Rightarrow> []) @ requests evs"
  by (simp add: requests_def)

lemma requests_map_Request: "requests (map Request rs) = rs"
  by (induction rs) (simp_all add: requests_def)

text \<open>
  Whatever the host answers, the loop asks for a prefix of its pages, in order, 30
  entries each.
\<close>

lemma files_loop_requests:
  "\<exists>k\<le>length pages.
     requests (fst (files_loop w pages acc)) = map (\<lambda>p. GetFiles p 30) (take k pages)"
proof (induction pages arbitrary: acc)
  case Nil
  show ?case
    by (simp add: ret_def requests_def)
next
  case (Cons p pages)
  obtain status_code chunk where page: "pull_files_result w p 30 = (status_code, chunk)"
    by (cases "pull_files_result w p 30")
  show ?case
  proof (cases "status_code = codes_ok \<and> chunk \<noteq> []")
    case True
    from Cons.IH [of "acc @ chunk"] obtain k where
      k: "k \<le> length pages"
         "requests (fst (files_loop w pages (acc @ chunk)))
          = map (\<lambda>p. GetFiles p 30) (take k pages)"
      by blast
    from True page k have
      "requests (fst (files_loop w (p # pages) acc))
       = map (\<lambda>p. GetFiles p 30) (take (Suc k) (p # pages))"
      by (simp add: fst_bind requests_Cons)
    with k(1) show ?thesis
      by (intro exI [of _ "Suc k"]) simp
  next
    case False
    with page have
      "requests (fst (files_loop w (p # pages) acc))
       = map (\<lambda>p. GetFiles p 30) (take (Suc 0) (p # pages))"
      by (auto simp add: requests_Cons requests_def)
    then show ?thesis
      by (intro exI [of _ "Suc 0"]) simp
  qed
qed

text \<open>
  When every page is answered with status 200, the loop collects the pages before the
  first empty one and asks for that empty page as its last request.
\<close>

lemma files_loop_ok:
  assumes "\<forall>p\<in>set pages. fst (pull_files_result w p 30) = codes_ok"
  shows "files_loop w pages acc =
         (map (\<lambda>p. Request (GetFiles p 30))
            (take (Suc (length (takeWhile (\<lambda>p. snd (pull_files_result w p 30) \<noteq> []) pages)))
               pages),
          Inr (Val (acc @ concat (map (\<lambda>p. snd (pull_files_result w p 30))
                                   (takeWhile (\<lambda>p. snd (pull_files_result w p 30) \<noteq> [])
                                      pages)))))"
  using assms
proof (induction pages arbitrary: acc)
  case Nil
  show ?case
    by (simp add: ret_def)
next
  case (Cons p pages)
  then show ?case
    by (cases "pull_files_result w p 30") (simp add: bind_def)
qed

text \<open>
  C5. \<open>get_pull_request_files\<close> asks for pages \<open>1, 2, ...\<close> of 30 entries each and
  never for more than 10 pages. When the host answers every page with status 200, the
  result is the concatenation, in page order, of the pages before the first empty one,
  and the empty page is the last one asked for. With page sizes 30, 30, 0 that is 60
  entries after three requests; with ten pages of 30 it is 300 entries after ten
  requests, and the result is a list, not a failure.
\<close>

theorem get_pull_request_files_pages:
  "(\<exists>k\<le>10. requests (fst (get_pull_request_files w))
             = map (\<lambda>p. GetFiles p 30) (take k [1..<11]))
   \<and> ((\<forall>p\<in>{1..10}. fst (pull_files_result w p 30) = codes_ok) \<longrightarrow>
        snd (get_pull_request_files w)
          = Inr (Val (concat (map (\<lambda>p. snd (pull_files_result w p 30))
                               (takeWhile (\<lambda>p. snd (pull_files_result w p 30) \<noteq> [])
                                  [1..<11]))))
        \<and> requests (fst (get_pull_request_files w))
          = map (\<lambda>p. GetFiles p 30)
              (take (Suc (length (takeWhile (\<lambda>p. snd (pull_files_result w p 30) \<noteq> [])
                                    [1..<11])))
                 [1..<11])
        \<and> (length (snd (pull_files_result w 1 30)) = 30
             \<and> length (snd (pull_files_result w 2 30)) = 30
             \<and> snd (pull_files_result w 3 30) = [] \<longrightarrow>
            (\<exists>files. snd (get_pull_request_files w) = Inr (Val files)
               \<and> files = snd (pull_files_result w 1 30) @ snd (pull_files_result w 2 30)
               \<and> length files = 60)
            \<and> requests (fst (get_pull_request_files w))
              = [GetFiles 1 30, GetFiles 2 30, GetFiles 3 30])
        \<and> ((\<forall>p\<in>{1..10}. length (snd (pull_files_result w p 30)) = 30) \<longrightarrow>
            (\<exists>files. snd (get_pull_request_files w) = Inr (Val files)
               \<and> files = concat (map (\<lambda>p. snd (pull_files_result w p 30)) [1..<11])
               \<and> length files = 300)
            \<and> requests (fst (get_pull_request_files w))
              = map (\<lambda>p. GetFiles p 30) [1..<11]))"
proof (intro conjI impI)
  show "\<exists>k\<le>10. requests (fst (get_pull_request_files w))
                 = map (\<lambda>p. GetFiles p 30) (take k [1..<11])"
    using files_loop_requests [of "[1..<11]" w "[]"]
    by (simp add: get_pull_request_files_def)
next
  assume ok: "\<forall>p\<in>{1..10}. fst (pull_files_result w p 30) = codes_ok"
  let ?chunk = "\<lambda>p. snd (pull_files_result w p 30)"
  let ?full = "takeWhile (\<lambda>p. ?chunk p \<noteq> []) [1..<11]"
  from ok have "\<forall>p\<in>set [1..<11]. fst (pull_files_result w p 30) = codes_ok"
    by simp
  then have run: "get_pull_request_files w =
      (map (\<lambda>p. Request (GetFiles p 30)) (take (Suc (length ?full)) [1..<11]),
       Inr (Val ([] @ concat (map ?chunk ?full))))"
    unfolding get_pull_request_files_def by (rule files_loop_ok)
  from run show result: "snd (get_pull_request_files w) = Inr (Val (concat (map ?chunk ?full)))"
    by simp
  have "requests (map Request (map (\<lambda>p. GetFiles p 30) (take (Suc (length ?full)) [1..<11])))
        = map (\<lambda>p. GetFiles p 30) (take (Suc (length ?full)) [1..<11])"
    by (rule requests_map_Request)
  with run show asked: "requests (fst (get_pull_request_files w))
        = map (\<lambda>p. GetFiles p 30) (take (Suc (length ?full)) [1..<11])"
    by (simp add: comp_def)
  {
    assume sizes: "length (?chunk 1) = 30 \<and> length (?chunk 2) = 30 \<and> ?chunk 3 = []"
    then have "?chunk 1 \<noteq> []" and "?chunk 2 \<noteq> []" and "?chunk 3 = []"
      by auto
    then have full: "?full = [1, 2]"
      by (simp add: range_Suc_0_11)
    from result [unfolded full] sizes show
      "\<exists>files. snd (get_pull_request_files w) = Inr (Val files)
         \<and> files = ?chunk 1 @ ?chunk 2 \<and> length files = 60"
      by simp
    from asked [unfolded full] show
      "requests (fst (get_pull_request_files w)) = [GetFiles 1 30, GetFiles 2 30, GetFiles 3 30]"
      by (simp add: range_Suc_0_11)
  }
  {
    assume sizes: "\<forall>p\<in>{1..10}. length (?chunk p) = 30"
    have "?chunk p \<noteq> []" if "p \<in> set [1..<11]" for p
    proof -
      from that have "p \<in> {1..10}"
        by auto
      with sizes have "length (?chunk p) = 30"
        by (rule bspec)
      then show ?thesis
        by auto
    qed
    then have "\<forall>p\<in>set [1..<11]. ?chunk p \<noteq> []"
      by blast
    then have full: "?full = [1..<11]"
      by (simp only: takeWhile_eq_all_conv)
    from sizes have "length (concat (map ?chunk [1, 2, 3, 4, 5, 6, 7, 8, 9, 10])) = 300"
      by simp
    with result [unfolded full] show
      "\<exists>files. snd (get_pull_request_files w) = Inr (Val files)
         \<and> files = concat (map ?chunk [1..<11]) \<and> length files = 300"
      by (simp add: range_Suc_0_11)
    from asked [unfolded full] show
      "requests (fst (get_pull_request_files w)) = map (\<lambda>p. GetFiles p 30) [1..<11]"
      by simp
  }
qed

theorem get_pull_request_files_pages_witness:
  "requests (fst (get_pull_request_files (paged_world 2)))
     = [GetFiles 1 30, GetFiles 2 30, GetFiles 3 30]
   \<and> (\<exists>files. snd (get_pull_request_files (paged_world 2)) = Inr (Val files)
         \<and> length files = 60)
   \<and> requests (fst (get_pull_request_files (paged_world 11)))
     = map (\<lambda>p. GetFiles p 30) [1, 2, 3, 4, 5, 6, 7, 8, 9, 10]
   \<and> (\<exists>files. snd (get_pull_request_files (paged_world 11)) = Inr (Val files)
         \<and> length files = 300)"
proof -
  let ?two = "paged_world 2" and ?many = "paged_world 11"
  have ok_two: "\<forall>p\<in>{1..10}. fst (pull_files_result ?two p 30) = codes_ok"
    by (simp add: paged_world_def codes_ok_def)
  have sizes_two:
    "length (snd (pull_files_result ?two 1 30)) = 30
     \<and> length (snd (pull_files_result ?two 2 30)) = 30
     \<and> snd (pull_files_result ?two 3 30) = []"
    by (simp add: paged_world_def)
  have ok_many: "\<forall>p\<in>{1..10}. fst (pull_files_result ?many p 30) = codes_ok"
    by (simp add: paged_world_def codes_ok_def)
  have sizes_many: "\<forall>p\<in>{1..10}. length (snd (pull_files_result ?many p 30)) = 30"
    by (simp add: paged_world_def)
  from get_pull_request_files_pages [of ?two, THEN conjunct2, THEN mp, OF ok_two] sizes_two
  have two:
    "(\<exists>files. snd (get_pull_request_files ?two) = Inr (Val files) \<and> length files = 60)
     \<and> requests (fst (get_pull_request_files ?two))
       = [GetFiles 1 30, GetFiles 2 30, GetFiles 3 30]"
    by blast
  from get_pull_request_files_pages [of ?many, THEN conjunct2, THEN mp, OF ok_many] sizes_many
  have many:
    "(\<exists>files. snd (get_pull_request_files ?many) = Inr (Val files) \<and> length files = 300)
     \<and> requests (fst (get_pull_request_files ?many)) = map (\<lambda>p. GetFiles p 30) [1..<11]"
    by blast
  from two many show ?thesis
    by (simp only: range_1_11)
qed

section \<open>The calls of a run\<close>

lemma calls_Nil: "generation_calls [] = [] \<and> publish_calls [] = []"
  by (simp add: generation_calls_def publish_calls_def)

lemma generation_calls_append:
  "generation_calls (xs @ ys) = generation_calls xs @ generation_calls ys"
  by (simp add: generation_calls_def)

lemma publish_calls_append: "publish_calls (xs @ ys) = publish_calls xs @ publish_calls ys"
  by (simp add: publish_calls_def)

lemma generation_calls_Cons:
  "generation_calls (e # evs) =
   (case e of ChatCompletion p \<Rightarrow> [p] | _ \<Rightarrow> []) @ generation_calls evs"
  by (simp add: generation_calls_def)

lemma publish_calls_Cons:
  "publish_calls (e # evs) =
   (case e of Request (PostComment b) \<Rightarrow> [b] | _ \<Rightarrow> []) @ publish_calls evs"
  by (simp add: publish_calls_def)

lemmas calls_simps =
  calls_Nil generation_calls_append publish_calls_append generation_calls_Cons
  publish_calls_Cons

text \<open>The steps before the generation neither call the backend nor post a comment.\<close>

lemma quiet_comments_loop:
  "generation_calls (fst (comments_loop t cs)) = []
   \<and> publish_calls (fst (comments_loop t cs)) = []"
  by (induction cs) (simp_all add: ret_def calls_simps)

lemma quiet_files_loop:
  "generation_calls (fst (files_loop w pages acc)) = []
   \<and> publish_calls (fst (files_loop w pages acc)) = []"
  by (induction pages arbitrary: acc)
     (simp_all add: ret_def fst_bind calls_simps split: prod.split)

lemma quiet_get_pull_request_data:
  "generation_calls (fst (get_pull_request_data w)) = []
   \<and> publish_calls (fst (get_pull_request_data w)) = []"
  by (simp add: get_pull_request_data_def calls_simps split: prod.split)

lemma quiet_check_author:
  "generation_calls
     (fst (check_pull_request_author_is_allowed_to_trigger_action data allowed)) = []
   \<and> publish_calls
       (fst (check_pull_request_author_is_allowed_to_trigger_action data allowed)) = []"
  by (simp add: check_pull_request_author_is_allowed_to_trigger_action_def ret_def raise_def
        calls_simps Let_def split: option.split)

lemma quiet_check_comments:
  "generation_calls (fst (check_if_description_has_already_been_autogenerated w t)) = []
   \<and> publish_calls (fst (check_if_description_has_already_been_autogenerated w t)) = []"
  by (simp add: check_if_description_has_already_been_autogenerated_def fst_bind
        quiet_comments_loop calls_simps split: prod.split)

lemma quiet_subscript:
  "generation_calls (fst (subscript data)) = [] \<and> publish_calls (fst (subscript data)) = []"
  by (simp add: subscript_def ret_def raise_def calls_simps split: option.split)

lemma quiet_get_commit_messages:
  "generation_calls (fst (get_commit_messages w)) = []
   \<and> publish_calls (fst (get_commit_messages w)) = []"
  by (simp add: get_commit_messages_def calls_simps split: prod.split)

lemma quiet_get_pull_request_files:
  "generation_calls (fst (get_pull_request_files w)) = []
   \<and> publish_calls (fst (get_pull_request_files w)) = []"
  by (simp add: get_pull_request_files_def quiet_files_loop)

lemma quiet_iterable:
  "generation_calls (fst (iterable v)) = [] \<and> publish_calls (fst (iterable v)) = []"
  by (simp add: iterable_def ret_def raise_def calls_simps split: or_int.split)

lemma calls_write_description:
  "generation_calls (fst (write_description_as_comment w b)) = []
   \<and> publish_calls (fst (write_description_as_comment w b)) = [b]"
  by (simp add: write_description_as_comment_def calls_simps split: prod.split)

lemmas quiet_steps =
  quiet_get_pull_request_data quiet_check_author quiet_check_comments quiet_subscript
  quiet_get_commit_messages quiet_get_pull_request_files quiet_iterable
  calls_write_description

text \<open>
  A run calls the backend at most once. It posts at most one comment, and only after
  the backend has returned a text: the comment is that text under the title.
\<close>

lemma main_calls:
  "(generation_calls (fst (main env w)) = [] \<and> publish_calls (fst (main env w)) = [])
   \<or> (\<exists>p e. generation_calls (fst (main env w)) = [p] \<and> chat_completion w p = Inl e
          \<and> publish_calls (fst (main env w)) = [])
   \<or> (\<exists>p g. generation_calls (fst (main env w)) = [p] \<and> chat_completion w p = Inr g
          \<and> publish_calls (fst (main env w))
            = [add_title_to_description autogenerated_title g])"
  by (auto simp add: main_def Let_def fst_bind quiet_steps send_prompt_to_openai_def
        calls_simps ret_def split: sum.split)

section \<open>The published comment\<close>

text \<open>
  C9. The text built from a title and a description is the title, two newline
  characters and the description. Every comment a run posts is built this way from
  the title \<open># Auto-generated description:\<close> and the text the backend returned in
  that run.
\<close>

theorem published_comment_body:
  "add_title_to_description t g = t @ ''\<newline>\<newline>'' @ g
   \<and> length (add_title_to_description t g) = length t + 2 + length g
   \<and> (\<forall>b\<in>set (publish_calls (fst (main env w))).
        \<exists>p g'. generation_calls (fst (main env w)) = [p]
          \<and> chat_completion w p = Inr g'
          \<and> b = ''# Auto-generated description:'' @ ''\<newline>\<newline>'' @ g')"
proof (intro conjI ballI)
  show "add_title_to_description t g = t @ ''\<newline>\<newline>'' @ g"
    by (simp add: add_title_to_description_def)
  show "length (add_title_to_description t g) = length t + 2 + length g"
    by (simp add: add_title_to_description_def)
next
  fix b
  assume "b \<in> set (publish_calls (fst (main env w)))"
  with main_calls [of env w] obtain p g' where
    "generation_calls (fst (main env w)) = [p]" and "chat_completion w p = Inr g'"
    and "b = add_title_to_description autogenerated_title g'"
    by auto
  then show "\<exists>p g'. generation_calls (fst (main env w)) = [p]
               \<and> chat_completion w p = Inr g'
               \<and> b = ''# Auto-generated description:'' @ ''\<newline>\<newline>'' @ g'"
    by (auto simp add: add_title_to_description_def autogenerated_title_def)
qed

theorem published_comment_body_witness:
  "''# Auto-generated description:\<newline>\<newline>Generated text''
     \<in> set (publish_calls (fst (main [] example_world)))
   \<and> (\<exists>p g'. generation_calls (fst (main [] example_world)) = [p]
          \<and> chat_completion example_world p = Inr g'
          \<and> ''# Auto-generated description:\<newline>\<newline>Generated text''
            = ''# Auto-generated description:'' @ ''\<newline>\<newline>'' @ g')"
proof -
  have "publish_calls (fst (main [] example_world))
        = [''# Auto-generated description:\<newline>\<newline>Generated text'']"
    by code_simp
  then have posted: "''# Auto-generated description:\<newline>\<newline>Generated text''
      \<in> set (publish_calls (fst (main [] example_world)))"
    by simp
  from published_comment_body [of _ _ "[]" example_world, THEN conjunct2, THEN conjunct2,
      THEN bspec, OF posted] posted
  show ?thesis
    by blast
qed

section \<open>Results that \<open>main\<close> does not look at\<close>

text \<open>
  C1 (the code differs). On a pull request that already carries a comment with the
  title, \<open>check_if_description_has_already_been_autogenerated\<close> prints its message
  and returns \<open>1\<close>; \<open>main\<close> (line 308) drops that value and goes on: the backend is
  called once and a second comment is posted.
\<close>

theorem run_with_earlier_comment:
  "snd (check_if_description_has_already_been_autogenerated commented_world
          autogenerated_title) = Inr (Some 1)
   \<and> Print AlreadyAutogenerated \<in> set (fst (main [] commented_world))
   \<and> length (generation_calls (fst (main [] commented_world))) = 1
   \<and> publish_calls (fst (main [] commented_world))
     = [''# Auto-generated description:\<newline>\<newline>Generated text'']
   \<and> exit_status (main [] commented_world) = 0"
  by code_simp

text \<open>
  C2 (the code differs). \<open>write_description_as_comment\<close> returns \<open>1\<close> when the host
  refuses the comment, and \<open>get_commit_messages\<close> returns \<open>1\<close> when the commit list
  cannot be fetched; \<open>main\<close> drops the first and formats the second into the prompt as
  the text \<open>1\<close>. Both runs return \<open>None\<close>, so the exit status is 0.
\<close>

theorem run_with_failed_steps_exits_zero:
  "snd (write_description_as_comment post_fails_world
          ''# Auto-generated description:\<newline>\<newline>Generated text'') = Inr (Some 1)
   \<and> Print (AddCommentFailed 500) \<in> set (fst (main [] post_fails_world))
   \<and> exit_status (main [] post_fails_world) = 0
   \<and> snd (get_commit_messages commits_fail_world) = Inr (IntVal 1)
   \<and> Print (CommitsFailed 500) \<in> set (fst (main [] commits_fail_world))
   \<and> length (generation_calls (fst (main [] commits_fail_world))) = 1
   \<and> exit_status (main [] commits_fail_world) = 0"
  by code_simp

text \<open>
  C3 (the code differs). With the allowed users \<open>alice,bob\<close> and the author
  \<open>mallory\<close>, \<open>check_pull_request_author_is_allowed_to_trigger_action\<close> prints its
  message and returns \<open>0\<close>; \<open>main\<close> (lines 305 to 307) drops that value and goes on:
  the backend is called once and the comment is posted.
\<close>

theorem run_for_author_not_allowed:
  "snd (check_pull_request_author_is_allowed_to_trigger_action
          (Some (snd (pull_request_result example_world))) (split_comma ''alice,bob''))
     = Inr (Some 0)
   \<and> Print (AuthorNotAllowed ''mallory'') \<in> set (fst (main ''alice,bob'' example_world))
   \<and> length (generation_calls (fst (main ''alice,bob'' example_world))) = 1
   \<and> publish_calls (fst (main ''alice,bob'' example_world))
     = [''# Auto-generated description:\<newline>\<newline>Generated text'']
   \<and> exit_status (main ''alice,bob'' example_world) = 0"
  by code_simp

end
